theory Spec2Isabelle
  imports Main
begin

section \<open>The command graph of libqtile/command\_graph.py\<close>

subsection \<open>Selectors and their rendering\<close>

text \<open>
  \<^verbatim>\<open>SelectorType = Tuple[str, Optional[str]]\<close>: the name of an object kind and
  the optional selector of one item of that kind.
\<close>

type_synonym SelectorType = "string \<times> string option"

text \<open>
  Python's \<^verbatim>\<open>sep.join(xs)\<close> on a list of strings: the elements in order, with
  \<^verbatim>\<open>sep\<close> between two neighbours and nothing at either end.
\<close>

fun join :: "string \<Rightarrow> string list \<Rightarrow> string" where
  "join sep [] = []"
| "join sep [x] = x"
| "join sep (x # y # ys) = x @ sep @ join sep (y # ys)"

text \<open>
  The loop of \<^verbatim>\<open>_format_selectors\<close>: \<^verbatim>\<open>path_elements\<close> is the accumulator, and
  each selector appends one element, \<^verbatim>\<open>"{}[{}]".format(name, selector)\<close> when the
  selector is not \<^verbatim>\<open>None\<close> and the bare name otherwise.
\<close>

fun format_selectors_loop :: "string list \<Rightarrow> SelectorType list \<Rightarrow> string list" where
  "format_selectors_loop path_elements [] = path_elements"
| "format_selectors_loop path_elements ((name, selector) # rest) =
     (case selector of
        Some sel \<Rightarrow> format_selectors_loop (path_elements @ [name @ ''['' @ sel @ '']'']) rest
      | None \<Rightarrow> format_selectors_loop (path_elements @ [name]) rest)"

definition format_selectors :: "SelectorType list \<Rightarrow> string" where
  "format_selectors selectors = join ''.'' (format_selectors_loop [] selectors)"

subsection \<open>Nodes\<close>

text \<open>
  The six concrete subclasses of \<^verbatim>\<open>CommandGraphObject\<close>. A class fixes the two
  class attributes \<^verbatim>\<open>object_type\<close> and \<^verbatim>\<open>children\<close>.
\<close>

datatype object_class =
  BarGraphNode | GroupGraphNode | LayoutGraphNode | ScreenGraphNode | WidgetGraphNode | WindowGraphNode

fun object_type :: "object_class \<Rightarrow> string" where
  "object_type BarGraphNode = ''bar''"
| "object_type GroupGraphNode = ''group''"
| "object_type LayoutGraphNode = ''layout''"
| "object_type ScreenGraphNode = ''screen''"
| "object_type WidgetGraphNode = ''widget''"
| "object_type WindowGraphNode = ''window''"

fun class_children :: "object_class \<Rightarrow> string list" where
  "class_children BarGraphNode = [''screen'']"
| "class_children GroupGraphNode = [''layout'', ''window'', ''screen'']"
| "class_children LayoutGraphNode = [''group'', ''window'', ''screen'']"
| "class_children ScreenGraphNode = [''layout'', ''window'', ''bar'']"
| "class_children WidgetGraphNode = [''bar'', ''screen'', ''group'']"
| "class_children WindowGraphNode = [''group'', ''screen'', ''layout'']"

text \<open>
  A container is the root or an object of one of the six classes, holding the
  \<^verbatim>\<open>_selector\<close> and \<^verbatim>\<open>_parent\<close> its constructor was given. Both fields are written
  in \<^verbatim>\<open>__init__\<close> only, and the parent exists before the child, so the nodes form
  finite trees and a datatype represents them. A node is a container or a
  \<^verbatim>\<open>CommandGraphCall\<close> with its \<^verbatim>\<open>_name\<close> and \<^verbatim>\<open>_parent\<close>.
\<close>

datatype container =
  CommandGraphRoot
| CommandGraphObject object_class "string option" container

datatype node =
  Container container
| CommandGraphCall string container

text \<open>
  The exceptions: \<^verbatim>\<open>KeyError\<close> with its argument (raised by \<^verbatim>\<open>navigate\<close> with the
  message "Given node is not an object: ...", and by a dictionary lookup with the
  missing key), and \<^verbatim>\<open>AttributeError\<close> with the name of the missing attribute.
\<close>

datatype error = KeyError string | AttributeError string

text \<open>\<^verbatim>\<open>_CommandGraphMap\<close>, in the order of the source.\<close>

definition CommandGraphMap :: "(string \<times> object_class) list" where
  "CommandGraphMap =
     [(''bar'', BarGraphNode), (''group'', GroupGraphNode), (''layout'', LayoutGraphNode),
      (''widget'', WidgetGraphNode), (''window'', WindowGraphNode), (''screen'', ScreenGraphNode)]"

fun children :: "container \<Rightarrow> string list" where
  "children CommandGraphRoot = [''bar'', ''group'', ''layout'', ''screen'', ''widget'', ''window'']"
| "children (CommandGraphObject cls sel p) = class_children cls"

fun selector :: "container \<Rightarrow> string option" where
  "selector CommandGraphRoot = None"
| "selector (CommandGraphObject cls sel p) = sel"

fun selectors :: "container \<Rightarrow> SelectorType list" where
  "selectors CommandGraphRoot = []"
| "selectors (CommandGraphObject cls sel p) = selectors p @ [(object_type cls, sel)]"

text \<open>\<^verbatim>\<open>CommandGraphContainer.path\<close>.\<close>

definition path :: "container \<Rightarrow> string" where
  "path self = format_selectors (selectors self)"

text \<open>The properties \<^verbatim>\<open>parent\<close>, \<^verbatim>\<open>selectors\<close> and \<^verbatim>\<open>path\<close> of any node.\<close>

fun parent :: "node \<Rightarrow> container option" where
  "parent (Container CommandGraphRoot) = None"
| "parent (Container (CommandGraphObject cls sel p)) = Some p"
| "parent (CommandGraphCall name p) = Some p"

fun node_selectors :: "node \<Rightarrow> SelectorType list" where
  "node_selectors (Container c) = selectors c"
| "node_selectors (CommandGraphCall name p) = selectors p"

fun node_path :: "node \<Rightarrow> string" where
  "node_path (Container c) = path c"
| "node_path (CommandGraphCall name p) =
     (let parent_path = path p
      in if parent_path \<noteq> [] then parent_path @ ''.'' @ name else name)"

subsection \<open>Navigation\<close>

text \<open>
  \<^verbatim>\<open>CommandGraphContainer.navigate\<close>. The lookup \<^verbatim>\<open>_CommandGraphMap[name]\<close> raises
  \<^verbatim>\<open>KeyError(name)\<close> on a missing key; the class found is called with
  \<^verbatim>\<open>(selector, self)\<close>.
\<close>

definition navigate :: "container \<Rightarrow> string \<Rightarrow> string option \<Rightarrow> error + node" where
  "navigate self name sel =
     (if name \<in> set (children self) then
        (case map_of CommandGraphMap name of
           None \<Rightarrow> Inl (KeyError name)
         | Some cls \<Rightarrow> Inr (Container (CommandGraphObject cls sel self)))
      else if sel \<noteq> None then Inl (KeyError (''Given node is not an object: '' @ name))
      else Inr (CommandGraphCall name self))"

text \<open>
  Modelled from the spec: the caller that resolves an address (section 6: the pairs are
  "fed one step at a time into navigate starting from Root") is not in this module.
  \<open>navigate_trace\<close> is that loop; it returns the node every step produced, in order,
  and stops at the first exception. A \<^verbatim>\<open>CommandGraphCall\<close> has no method
  \<^verbatim>\<open>navigate\<close>, so a step from one raises \<^verbatim>\<open>AttributeError\<close>.
\<close>

fun navigate_trace :: "node \<Rightarrow> SelectorType list \<Rightarrow> error + node list" where
  "navigate_trace n [] = Inr []"
| "navigate_trace (Container c) ((name, sel) # rest) =
     (case navigate c name sel of
        Inl e \<Rightarrow> Inl e
      | Inr n' \<Rightarrow> (case navigate_trace n' rest of Inl e \<Rightarrow> Inl e | Inr ns \<Rightarrow> Inr (n' # ns)))"
| "navigate_trace (CommandGraphCall name p) (step # rest) = Inl (AttributeError ''navigate'')"

text \<open>The node a walk ends at: the last one produced, or the start when there is no step.\<close>

definition navigate_steps :: "node \<Rightarrow> SelectorType list \<Rightarrow> error + node" where
  "navigate_steps n steps =
     (case navigate_trace n steps of Inl e \<Rightarrow> Inl e | Inr ns \<Rightarrow> Inr (last (n # ns)))"

fun is_container :: "node \<Rightarrow> bool" where
  "is_container (Container c) = True"
| "is_container (CommandGraphCall name p) = False"

text \<open>A call returned rather than raised.\<close>

fun succeeds :: "error + 'a \<Rightarrow> bool" where
  "succeeds (Inr x) = True"
| "succeeds (Inl e) = False"

text \<open>
  The chain of ancestors of a node: its parent, the parent's parent, and so on while
  \<^verbatim>\<open>parent\<close> is not \<^verbatim>\<open>None\<close>.
\<close>

fun container_ancestors :: "container \<Rightarrow> container list" where
  "container_ancestors CommandGraphRoot = []"
| "container_ancestors (CommandGraphObject cls sel p) = p # container_ancestors p"

fun ancestors :: "node \<Rightarrow> container list" where
  "ancestors (Container c) = container_ancestors c"
| "ancestors (CommandGraphCall name p) = p # container_ancestors p"

subsection \<open>The specification's rendering and adjacency table\<close>

text \<open>
  Section 4.3 of the specification: "render a step as kind[selector] when selector is
  present, else kind", and "join each step with ." .
\<close>

fun render_step :: "SelectorType \<Rightarrow> string" where
  "render_step (kind, Some sel) = kind @ ''['' @ sel @ '']''"
| "render_step (kind, None) = kind"

definition format_path :: "SelectorType list \<Rightarrow> string" where
  "format_path steps = join ''.'' (map render_step steps)"

text \<open>Section 4.1 of the specification: the adjacency table, row by row.\<close>

definition spec_adjacency :: "(string \<times> string set) list" where
  "spec_adjacency =
     [(''root'', {''bar'', ''group'', ''layout'', ''screen'', ''widget'', ''window''}),
      (''bar'', {''screen''}),
      (''group'', {''layout'', ''window'', ''screen''}),
      (''layout'', {''group'', ''window'', ''screen''}),
      (''screen'', {''layout'', ''window'', ''bar''}),
      (''widget'', {''bar'', ''screen'', ''group''}),
      (''window'', {''group'', ''screen'', ''layout''})]"

section \<open>Properties\<close>

subsection \<open>Shared facts\<close>

lemma map_of_CommandGraphMap_object_type:
  "map_of CommandGraphMap (object_type cls) = Some cls"
  by (cases cls) (simp_all add: CommandGraphMap_def)

lemma class_children_kinds:
  "c \<in> set (class_children cls) \<Longrightarrow> \<exists>k. c = object_type k"
  by (cases cls) (auto intro: object_type.simps [symmetric])

lemma children_kinds:
  "c \<in> set (children n) \<Longrightarrow> \<exists>k. c = object_type k"
  by (cases n) (auto intro: object_type.simps [symmetric] dest: class_children_kinds)

lemma navigate_recognized:
  "c \<in> set (children n) \<Longrightarrow>
     \<exists>cls. object_type cls = c \<and> map_of CommandGraphMap c = Some cls \<and>
       navigate n c s = Inr (Container (CommandGraphObject cls s n))"
proof -
  assume mem: "c \<in> set (children n)"
  then obtain k where k: "c = object_type k"
    using children_kinds by blast
  have "navigate n c s = Inr (Container (CommandGraphObject k s n))"
    using mem by (simp add: navigate_def k map_of_CommandGraphMap_object_type)
  then show ?thesis
    using k map_of_CommandGraphMap_object_type by blast
qed

lemma format_selectors_loop_map:
  "format_selectors_loop acc steps = acc @ map render_step steps"
  by (induction acc steps rule: format_selectors_loop.induct) (simp_all split: option.splits)

lemma format_selectors_format_path: "format_selectors steps = format_path steps"
  by (simp add: format_selectors_def format_path_def format_selectors_loop_map)

lemma join_nonempty: "xs \<noteq> [] \<Longrightarrow> last xs \<noteq> [] \<Longrightarrow> join sep xs \<noteq> []"
  by (induction sep xs rule: join.induct) simp_all

lemma object_type_nonempty: "object_type cls \<noteq> []"
  by (cases cls) simp_all

lemma render_step_nonempty: "fst step \<noteq> [] \<Longrightarrow> render_step step \<noteq> []"
  by (cases step rule: render_step.cases) simp_all

lemma path_empty_iff: "path p = [] \<longleftrightarrow> p = CommandGraphRoot"
proof (cases p)
  case CommandGraphRoot
  then show ?thesis
    by (simp add: path_def format_selectors_def)
next
  case (CommandGraphObject cls sel q)
  have "render_step (object_type cls, sel) \<noteq> []"
    by (rule render_step_nonempty) (simp add: object_type_nonempty)
  then have "join ''.'' (map render_step (selectors q) @ [render_step (object_type cls, sel)]) \<noteq> []"
    by (intro join_nonempty) simp_all
  with CommandGraphObject show ?thesis
    by (simp add: path_def format_selectors_format_path format_path_def)
qed

lemma navigate_ancestors:
  "navigate c name sel = Inr n' \<Longrightarrow> ancestors n' = c # container_ancestors c"
  by (auto simp add: navigate_def split: if_splits option.splits)

lemma navigate_trace_length:
  "navigate_trace n steps = Inr ns \<Longrightarrow> length ns = length steps"
  by (induction n steps arbitrary: ns rule: navigate_trace.induct)
    (auto split: sum.splits)

lemma navigate_trace_ancestors:
  "navigate_trace n steps = Inr ns \<Longrightarrow>
     length (ancestors (last (n # ns))) = length (ancestors n) + length ns"
proof (induction n steps arbitrary: ns rule: navigate_trace.induct)
  case (1 n)
  then show ?case by simp
next
  case (2 c name sel rest)
  from "2.prems" obtain n' ns' where
    step: "navigate c name sel = Inr n'" and
    rest: "navigate_trace n' rest = Inr ns'" and
    ns: "ns = n' # ns'"
    by (auto split: sum.splits)
  have "length (ancestors (last (n' # ns'))) = length (ancestors n') + length ns'"
    using "2.IH" step rest by simp
  then show ?case
    using navigate_ancestors [OF step] ns by simp
next
  case (3 name p step rest)
  then show ?case by simp
qed

lemma navigate_trace_containers:
  "navigate_trace n steps = Inr ns \<Longrightarrow>
     length (filter is_container ns) + (if is_container (last (n # ns)) then 0 else 1) =
     length ns + (if is_container n then 0 else 1)"
proof (induction n steps arbitrary: ns rule: navigate_trace.induct)
  case (1 n)
  then show ?case by simp
next
  case (2 c name sel rest)
  from "2.prems" obtain n' ns' where
    step: "navigate c name sel = Inr n'" and
    rest: "navigate_trace n' rest = Inr ns'" and
    ns: "ns = n' # ns'"
    by (auto split: sum.splits)
  have "length (filter is_container ns') + (if is_container (last (n' # ns')) then 0 else 1) =
     length ns' + (if is_container n' then 0 else 1)"
    using "2.IH" step rest by simp
  moreover have "last (Container c # ns) = last (n' # ns')"
    using ns by simp
  ultimately show ?case
    using ns by (cases "is_container n'") (simp_all del: last.simps)
next
  case (3 name p step rest)
  then show ?case by simp
qed

lemma container_ancestors_Nil: "container_ancestors c = [] \<longleftrightarrow> c = CommandGraphRoot"
  by (cases c) simp_all

lemma container_ancestors_last:
  "c \<noteq> CommandGraphRoot \<Longrightarrow> last (container_ancestors c) = CommandGraphRoot"
proof (induction c)
  case CommandGraphRoot
  then show ?case by simp
next
  case (CommandGraphObject cls sel p)
  then show ?case by (cases p) simp_all
qed

lemma ancestors_last:
  "n \<noteq> Container CommandGraphRoot \<Longrightarrow> last (ancestors n) = CommandGraphRoot"
proof (cases n)
  case (Container c)
  assume "n \<noteq> Container CommandGraphRoot"
  with Container show ?thesis by (simp add: container_ancestors_last)
next
  case (CommandGraphCall name p)
  then show ?thesis
    using container_ancestors_last [of p]
    by (cases "p = CommandGraphRoot") (simp_all add: container_ancestors_Nil)
qed

lemma container_ancestors_smaller:
  "a \<in> set (container_ancestors c) \<Longrightarrow> size a < size c"
  by (induction c) auto

lemma ancestors_parent:
  "ancestors n = (case parent n of None \<Rightarrow> [] | Some p \<Rightarrow> p # ancestors (Container p))"
  by (cases n rule: parent.cases) simp_all

lemma parent_None_iff: "parent n = None \<longleftrightarrow> n = Container CommandGraphRoot"
  by (cases n rule: parent.cases) simp_all

subsection \<open>Navigation to a recognized child\<close>

text \<open>
  C1. For every container \<open>n\<close> (the root or an object of any of the six classes), every
  name \<open>c\<close> in \<open>children n\<close> and every selector \<open>s\<close> (present or absent),
  \<open>navigate n c s\<close> returns, without raising, a container object built by the class
  whose \<open>object_type\<close> is \<open>c\<close>, with selector \<open>s\<close> and parent \<open>n\<close>.
\<close>

theorem navigate_child:
  "c \<in> set (children n) \<Longrightarrow>
     \<exists>cls. navigate n c s = Inr (Container (CommandGraphObject cls s n)) \<and>
       object_type cls = c \<and>
       selector (CommandGraphObject cls s n) = s \<and>
       parent (Container (CommandGraphObject cls s n)) = Some n"
  using navigate_recognized [of c n s] by auto

text \<open>
  The property at the root, the child "screen" and the selector "1".
\<close>

theorem navigate_child_witness:
  "''screen'' \<in> set (children CommandGraphRoot) \<and>
   (\<exists>cls. navigate CommandGraphRoot ''screen'' (Some ''1'') =
        Inr (Container (CommandGraphObject cls (Some ''1'') CommandGraphRoot)) \<and>
      object_type cls = ''screen'' \<and>
      selector (CommandGraphObject cls (Some ''1'') CommandGraphRoot) = Some ''1'' \<and>
      parent (Container (CommandGraphObject cls (Some ''1'') CommandGraphRoot)) = Some CommandGraphRoot)"
  using navigate_child [of "''screen''" CommandGraphRoot "Some ''1''"] by simp

subsection \<open>Navigation to an unrecognized name\<close>

text \<open>
  C2. For every container \<open>n\<close> and every name \<open>c\<close> that is not in \<open>children n\<close>:
  with a selector \<open>Some s\<close> the call raises the "not an object" \<^verbatim>\<open>KeyError\<close>, whatever
  \<open>s\<close> is, and with no selector it returns the call node of name \<open>c\<close> and parent
  \<open>n\<close>. Hence \<open>navigate\<close> raises exactly when the name is unrecognized and a selector
  was given.
\<close>

theorem navigate_unrecognized:
  "(c \<notin> set (children n) \<longrightarrow>
      navigate n c (Some s) = Inl (KeyError (''Given node is not an object: '' @ c)) \<and>
      navigate n c None = Inr (CommandGraphCall c n)) \<and>
   (\<not> succeeds (navigate n c sel) \<longleftrightarrow> c \<notin> set (children n) \<and> sel \<noteq> None)"
proof (cases "c \<in> set (children n)")
  case True
  then obtain cls where "navigate n c sel = Inr (Container (CommandGraphObject cls sel n))"
    using navigate_recognized [of c n sel] by blast
  with True show ?thesis by simp
next
  case False
  then show ?thesis by (cases sel) (simp_all add: navigate_def)
qed

text \<open>
  The property at the root and the unrecognized name "status".
\<close>

theorem navigate_unrecognized_witness:
  "''status'' \<notin> set (children CommandGraphRoot) \<and>
   navigate CommandGraphRoot ''status'' (Some ''0'') =
     Inl (KeyError ''Given node is not an object: status'') \<and>
   navigate CommandGraphRoot ''status'' None = Inr (CommandGraphCall ''status'' CommandGraphRoot) \<and>
   \<not> succeeds (navigate CommandGraphRoot ''status'' (Some ''0''))"
  using navigate_unrecognized [of "''status''" CommandGraphRoot "''0''" "Some ''0''"] by simp

subsection \<open>Navigation from the root\<close>

text \<open>
  C3. The children of the root are exactly bar, group, layout, screen, widget and window,
  which are the six object kinds. For every kind \<open>k\<close> (the \<open>object_type\<close> of a class) and
  every selector \<open>s\<close>, navigating from the root to \<open>k\<close> succeeds iff \<open>k\<close> is a child of
  the root, and both hold. For every name \<open>k\<close>, kind or not, navigating from the root
  resolves to a container object iff \<open>k\<close> is a child of the root; a name that is not a
  kind is never resolved as an object, and the call then returns exactly when no selector
  is given.
\<close>

theorem navigate_root:
  "set (children CommandGraphRoot) =
     {''bar'', ''group'', ''layout'', ''screen'', ''widget'', ''window''} \<and>
   range object_type = set (children CommandGraphRoot) \<and>
   (succeeds (navigate CommandGraphRoot (object_type cls) s) \<longleftrightarrow>
      object_type cls \<in> set (children CommandGraphRoot)) \<and>
   succeeds (navigate CommandGraphRoot (object_type cls) s) \<and>
   ((\<exists>c. navigate CommandGraphRoot k s = Inr (Container c)) \<longleftrightarrow>
      k \<in> set (children CommandGraphRoot)) \<and>
   (succeeds (navigate CommandGraphRoot k s) \<longleftrightarrow>
      k \<in> set (children CommandGraphRoot) \<or> s = None)"
proof -
  have kind: "object_type cls \<in> set (children CommandGraphRoot)" for cls
    by (cases cls) simp_all
  have kinds: "range object_type = set (children CommandGraphRoot)"
  proof
    show "range object_type \<subseteq> set (children CommandGraphRoot)"
      using kind by blast
    show "set (children CommandGraphRoot) \<subseteq> range object_type"
      using children_kinds [of _ CommandGraphRoot] by blast
  qed
  have ok: "succeeds (navigate CommandGraphRoot (object_type cls) s)"
    using navigate_recognized [OF kind, of cls s] by auto
  have names: "((\<exists>c. navigate CommandGraphRoot k s = Inr (Container c)) \<longleftrightarrow>
      k \<in> set (children CommandGraphRoot)) \<and>
    (succeeds (navigate CommandGraphRoot k s) \<longleftrightarrow>
      k \<in> set (children CommandGraphRoot) \<or> s = None)"
  proof (cases "k \<in> set (children CommandGraphRoot)")
    case True
    then obtain c where
      "navigate CommandGraphRoot k s = Inr (Container (CommandGraphObject c s CommandGraphRoot))"
      using navigate_recognized [of k CommandGraphRoot s] by blast
    with True show ?thesis by simp
  next
    case False
    then show ?thesis by (cases s) (simp_all add: navigate_def)
  qed
  have "set (children CommandGraphRoot) =
     {''bar'', ''group'', ''layout'', ''screen'', ''widget'', ''window''}"
    by simp
  with kinds kind [of cls] ok names show ?thesis
    by (simp only: simp_thms)
qed

subsection \<open>The adjacency table\<close>

text \<open>
  C4. The children of the root and of each class are those of the adjacency table of the
  specification, row by row, and the table has no other row; the children of an object
  depend on its class only, not on its selector or parent. The table is not symmetric
  (some kind reaches another that does not reach it back). Neither of widget and window
  is a child of the other: "window" is not a child of a widget, so navigating from a
  widget to "window" with no selector gives a call node; "group" is a child of a window, so navigating from a window to "group" gives a
  container object.
\<close>

theorem children_table:
  "map_of spec_adjacency ''root'' = Some (set (children CommandGraphRoot)) \<and>
   map_of spec_adjacency (object_type cls) = Some (set (children (CommandGraphObject cls s p))) \<and>
   dom (map_of spec_adjacency) = insert ''root'' (range object_type) \<and>
   children (CommandGraphObject cls s p) = children (CommandGraphObject cls s' p') \<and>
   (\<exists>a b. object_type b \<in> set (class_children a) \<and> object_type a \<notin> set (class_children b)) \<and>
   ''window'' \<notin> set (children (CommandGraphObject WidgetGraphNode s p)) \<and>
   navigate (CommandGraphObject WidgetGraphNode s p) ''window'' None =
     Inr (CommandGraphCall ''window'' (CommandGraphObject WidgetGraphNode s p)) \<and>
   ''widget'' \<notin> set (children (CommandGraphObject WindowGraphNode s p)) \<and>
   ''group'' \<in> set (children (CommandGraphObject WindowGraphNode s p)) \<and>
   navigate (CommandGraphObject WindowGraphNode s p) ''group'' None =
     Inr (Container (CommandGraphObject GroupGraphNode None (CommandGraphObject WindowGraphNode s p)))"
proof -
  have root: "map_of spec_adjacency ''root'' = Some (set (children CommandGraphRoot))"
    by (simp add: spec_adjacency_def)
  have row: "map_of spec_adjacency (object_type cls) = Some (set (children (CommandGraphObject cls s p)))"
    by (cases cls) (simp_all add: spec_adjacency_def)
  have "range object_type = {''bar'', ''group'', ''layout'', ''screen'', ''widget'', ''window''}"
  proof
    show "range object_type \<subseteq> {''bar'', ''group'', ''layout'', ''screen'', ''widget'', ''window''}"
    proof
      fix x assume "x \<in> range object_type"
      then obtain k where "x = object_type k" by blast
      then show "x \<in> {''bar'', ''group'', ''layout'', ''screen'', ''widget'', ''window''}"
        by (cases k) simp_all
    qed
    have "''bar'' = object_type BarGraphNode" "''group'' = object_type GroupGraphNode"
      "''layout'' = object_type LayoutGraphNode" "''screen'' = object_type ScreenGraphNode"
      "''widget'' = object_type WidgetGraphNode" "''window'' = object_type WindowGraphNode"
      by simp_all
    then show "{''bar'', ''group'', ''layout'', ''screen'', ''widget'', ''window''} \<subseteq> range object_type"
      by (metis empty_subsetI insert_subset rangeI)
  qed
  then have rows: "dom (map_of spec_adjacency) = insert ''root'' (range object_type)"
    by (simp add: dom_map_of_conv_image_fst spec_adjacency_def)
  have asym: "\<exists>a b. object_type b \<in> set (class_children a) \<and> object_type a \<notin> set (class_children b)"
  proof (intro exI conjI)
    show "object_type BarGraphNode \<in> set (class_children WidgetGraphNode)" by simp
    show "object_type WidgetGraphNode \<notin> set (class_children BarGraphNode)" by simp
  qed
  have call: "navigate (CommandGraphObject WidgetGraphNode s p) ''window'' None =
     Inr (CommandGraphCall ''window'' (CommandGraphObject WidgetGraphNode s p))"
    by (simp add: navigate_def)
  have obj: "navigate (CommandGraphObject WindowGraphNode s p) ''group'' None =
     Inr (Container (CommandGraphObject GroupGraphNode None (CommandGraphObject WindowGraphNode s p)))"
    by (simp add: navigate_def CommandGraphMap_def)
  show ?thesis
    using root row rows asym call obj by simp
qed

subsection \<open>Selector chains\<close>

text \<open>
  C5. The selectors of the root are empty; the selectors of a container object are those
  of its parent followed by the pair of its own object type and its own selector; the
  selectors of a call are those of its parent, with no step added.
\<close>

theorem selectors_recursion:
  "node_selectors (Container CommandGraphRoot) = [] \<and>
   node_selectors (Container (CommandGraphObject cls sel p)) =
     node_selectors (Container p) @ [(object_type cls, selector (CommandGraphObject cls sel p))] \<and>
   parent (Container (CommandGraphObject cls sel p)) = Some p \<and>
   node_selectors (CommandGraphCall name p) = node_selectors (Container p) \<and>
   parent (CommandGraphCall name p) = Some p"
  by simp

subsection \<open>Rendering\<close>

text \<open>
  C6. \<open>format_selectors\<close> joins the rendered steps with ".", a step being rendered as
  kind[selector] when the selector is present and as the kind alone otherwise (it equals
  the \<open>format_path\<close> of the specification). The path of a call is the path of its parent,
  a "." and the name when the parent's path is not empty, and the name alone when it is
  empty, which is the case exactly when the parent is the root. The steps ("screen", "1"),
  ("layout", None) render as "screen[1].layout", and the call "status" at the root has the
  path "status".
\<close>

theorem format_selectors_rendering:
  "format_selectors steps = join ''.'' (map render_step steps) \<and>
   format_selectors steps = format_path steps \<and>
   node_path (CommandGraphCall name p) =
     (if path p \<noteq> [] then path p @ ''.'' @ name else name) \<and>
   (path p = [] \<longleftrightarrow> p = CommandGraphRoot) \<and>
   format_selectors [(''screen'', Some ''1''), (''layout'', None)] = ''screen[1].layout'' \<and>
   map_sum id node_path (navigate CommandGraphRoot ''status'' None) = Inr ''status''"
proof -
  have "format_selectors [(''screen'', Some ''1''), (''layout'', None)] = ''screen[1].layout''"
    by (simp add: format_selectors_def)
  moreover have "map_sum id node_path (navigate CommandGraphRoot ''status'' None) = Inr ''status''"
    by (simp add: navigate_def path_def format_selectors_def)
  moreover have "node_path (CommandGraphCall name p) =
     (if path p \<noteq> [] then path p @ ''.'' @ name else name)"
    by (simp add: Let_def)
  ultimately show ?thesis
    using format_selectors_format_path [of steps] path_empty_iff [of p]
    by (simp only: format_path_def simp_thms)
qed

text \<open>
  C7. The path of every container is the rendering of its own selectors. Navigating from
  the root by ("screen", "1") and ("layout", None) gives a node of path "screen[1].layout";
  navigating by ("group", "work") and then the unrecognized name "info" with no selector
  gives a call of path "group[work].info".
\<close>

theorem container_path_rendering:
  "path n = format_path (selectors n) \<and>
   node_path (Container n) = format_path (node_selectors (Container n)) \<and>
   map_sum id node_path
     (navigate_steps (Container CommandGraphRoot) [(''screen'', Some ''1''), (''layout'', None)]) =
     Inr ''screen[1].layout'' \<and>
   navigate_steps (Container CommandGraphRoot) [(''group'', Some ''work''), (''info'', None)] =
     Inr (CommandGraphCall ''info'' (CommandGraphObject GroupGraphNode (Some ''work'') CommandGraphRoot)) \<and>
   map_sum id node_path
     (navigate_steps (Container CommandGraphRoot) [(''group'', Some ''work''), (''info'', None)]) =
     Inr ''group[work].info''"
proof -
  have a: "map_sum id node_path
     (navigate_steps (Container CommandGraphRoot) [(''screen'', Some ''1''), (''layout'', None)]) =
     Inr ''screen[1].layout''"
    by (simp add: navigate_steps_def navigate_def CommandGraphMap_def path_def format_selectors_def)
  have b: "navigate_steps (Container CommandGraphRoot) [(''group'', Some ''work''), (''info'', None)] =
     Inr (CommandGraphCall ''info'' (CommandGraphObject GroupGraphNode (Some ''work'') CommandGraphRoot))"
    by (simp add: navigate_steps_def navigate_def CommandGraphMap_def)
  have c: "node_path (CommandGraphCall ''info'' (CommandGraphObject GroupGraphNode (Some ''work'') CommandGraphRoot))
     = ''group[work].info''"
    by (simp add: path_def format_selectors_def)
  show ?thesis
    using a b c by (simp add: path_def format_selectors_format_path)
qed

subsection \<open>Ancestor chains\<close>

text \<open>
  C8, as stated, reads: after any sequence of steps from the root, the length of the
  resulting node's ancestor chain is the number of container-producing steps. One step to
  the unrecognized name "status" produces no container, and the call it returns has one
  ancestor, the root.
\<close>

theorem ancestor_chain_counterexample:
  "navigate_trace (Container CommandGraphRoot) [(''status'', None)] =
     Inr [CommandGraphCall ''status'' CommandGraphRoot] \<and>
   navigate_steps (Container CommandGraphRoot) [(''status'', None)] =
     Inr (CommandGraphCall ''status'' CommandGraphRoot) \<and>
   length (filter is_container [CommandGraphCall ''status'' CommandGraphRoot]) = 0 \<and>
   ancestors (CommandGraphCall ''status'' CommandGraphRoot) = [CommandGraphRoot] \<and>
   length (ancestors (CommandGraphCall ''status'' CommandGraphRoot)) \<noteq>
     length (filter is_container [CommandGraphCall ''status'' CommandGraphRoot])"
  by (simp add: navigate_steps_def navigate_def)

text \<open>
  C8, amended. For every sequence of steps from the root that raises nothing, the
  ancestor chain of the resulting node is the empty chain of the root or ends at the root;
  its length is the number of steps taken, which is the number of container-producing
  steps when the resulting node is a container and one more when it is a call; the node is
  not among its own ancestors; and it has no parent exactly when it is the root.
\<close>

theorem ancestor_chain:
  assumes "navigate_trace (Container CommandGraphRoot) steps = Inr ns"
  shows "navigate_steps (Container CommandGraphRoot) steps = Inr (last (Container CommandGraphRoot # ns)) \<and>
    length ns = length steps \<and>
    length (ancestors (last (Container CommandGraphRoot # ns))) = length ns \<and>
    length (ancestors (last (Container CommandGraphRoot # ns))) =
      length (filter is_container ns) +
        (if is_container (last (Container CommandGraphRoot # ns)) then 0 else 1) \<and>
    (ancestors (last (Container CommandGraphRoot # ns)) = [] \<or>
       last (ancestors (last (Container CommandGraphRoot # ns))) = CommandGraphRoot) \<and>
    (\<forall>c. last (Container CommandGraphRoot # ns) = Container c \<longrightarrow>
       c \<notin> set (ancestors (last (Container CommandGraphRoot # ns)))) \<and>
    (parent (last (Container CommandGraphRoot # ns)) = None \<longleftrightarrow>
       last (Container CommandGraphRoot # ns) = Container CommandGraphRoot)"
proof -
  let ?final = "last (Container CommandGraphRoot # ns)"
  have s: "navigate_steps (Container CommandGraphRoot) steps = Inr ?final"
    using assms by (simp add: navigate_steps_def)
  have l: "length ns = length steps"
    using assms by (rule navigate_trace_length)
  have a: "length (ancestors ?final) = length ns"
    using navigate_trace_ancestors [OF assms] by simp
  have k: "length (ancestors ?final) =
      length (filter is_container ns) + (if is_container ?final then 0 else 1)"
    using navigate_trace_containers [OF assms] a by simp
  have r: "ancestors ?final = [] \<or> last (ancestors ?final) = CommandGraphRoot"
    using ancestors_last [of ?final] by (cases "?final = Container CommandGraphRoot") simp_all
  have cyc: "\<forall>c. ?final = Container c \<longrightarrow> c \<notin> set (ancestors ?final)"
    using container_ancestors_smaller by fastforce
  show ?thesis
    using s l a k r cyc parent_None_iff [of ?final] by blast
qed

text \<open>
  The property on the walk screen[1], layout, info, which ends in a call with three
  ancestors after two container-producing steps.
\<close>

theorem ancestor_chain_witness:
  "navigate_trace (Container CommandGraphRoot)
     [(''screen'', Some ''1''), (''layout'', None), (''info'', None)] =
     Inr [Container (CommandGraphObject ScreenGraphNode (Some ''1'') CommandGraphRoot),
          Container (CommandGraphObject LayoutGraphNode None
            (CommandGraphObject ScreenGraphNode (Some ''1'') CommandGraphRoot)),
          CommandGraphCall ''info'' (CommandGraphObject LayoutGraphNode None
            (CommandGraphObject ScreenGraphNode (Some ''1'') CommandGraphRoot))] \<and>
   length (ancestors (CommandGraphCall ''info'' (CommandGraphObject LayoutGraphNode None
            (CommandGraphObject ScreenGraphNode (Some ''1'') CommandGraphRoot)))) = 3"
proof -
  have t: "navigate_trace (Container CommandGraphRoot)
     [(''screen'', Some ''1''), (''layout'', None), (''info'', None)] =
     Inr [Container (CommandGraphObject ScreenGraphNode (Some ''1'') CommandGraphRoot),
          Container (CommandGraphObject LayoutGraphNode None
            (CommandGraphObject ScreenGraphNode (Some ''1'') CommandGraphRoot)),
          CommandGraphCall ''info'' (CommandGraphObject LayoutGraphNode None
            (CommandGraphObject ScreenGraphNode (Some ''1'') CommandGraphRoot))]"
    by (simp add: navigate_def CommandGraphMap_def)
  show ?thesis
    using t ancestor_chain [OF t] by simp
qed

subsection \<open>The dispatch table\<close>

text \<open>
  C9. The keys of \<open>CommandGraphMap\<close> are exactly the six kinds, and every child name of
  every container is a key; so for a recognized name the lookup finds a class, that class
  reports the name as its \<open>object_type\<close>, and \<open>navigate\<close> returns the object it builds.
  Every entry of the table maps a name to the class of that \<open>object_type\<close>, and
  \<open>navigate\<close> never raises the \<^verbatim>\<open>KeyError\<close> of a failed lookup.
\<close>

theorem dispatch_total:
  "dom (map_of CommandGraphMap) = {''bar'', ''group'', ''layout'', ''screen'', ''widget'', ''window''} \<and>
   set (children n) \<subseteq> dom (map_of CommandGraphMap) \<and>
   (c \<in> set (children n) \<longrightarrow>
      (\<exists>cls. map_of CommandGraphMap c = Some cls \<and> object_type cls = c \<and>
         navigate n c s = Inr (Container (CommandGraphObject cls s n)))) \<and>
   (map_of CommandGraphMap k = Some cls' \<longrightarrow> object_type cls' = k) \<and>
   navigate n name sel \<noteq> Inl (KeyError name)"
proof -
  have d: "dom (map_of CommandGraphMap) = {''bar'', ''group'', ''layout'', ''screen'', ''widget'', ''window''}"
    by (auto simp add: dom_map_of_conv_image_fst CommandGraphMap_def)
  have sub: "set (children n) \<subseteq> dom (map_of CommandGraphMap)"
    using navigate_recognized [of _ n s] by (auto simp: dom_def)
  have rec: "c \<in> set (children n) \<longrightarrow>
      (\<exists>cls. map_of CommandGraphMap c = Some cls \<and> object_type cls = c \<and>
         navigate n c s = Inr (Container (CommandGraphObject cls s n)))"
    using navigate_recognized [of c n s] by blast
  have cons: "map_of CommandGraphMap k = Some cls' \<longrightarrow> object_type cls' = k"
    by (auto simp add: CommandGraphMap_def split: if_splits)
  have "navigate n name sel \<noteq> Inl (KeyError name)"
  proof (cases "name \<in> set (children n)")
    case True
    then show ?thesis using navigate_recognized [of name n sel] by auto
  next
    case False
    have "length (''Given node is not an object: '' @ name) \<noteq> length name" by simp
    then have "''Given node is not an object: '' @ name \<noteq> name" by metis
    with False show ?thesis by (simp add: navigate_def)
  qed
  with d sub rec cons show ?thesis by blast
qed

text \<open>
  The property at a group object and its child "window".
\<close>

theorem dispatch_total_witness:
  "''window'' \<in> set (children (CommandGraphObject GroupGraphNode None CommandGraphRoot)) \<and>
   map_of CommandGraphMap ''window'' = Some WindowGraphNode \<and>
   object_type WindowGraphNode = ''window'' \<and>
   navigate (CommandGraphObject GroupGraphNode None CommandGraphRoot) ''window'' (Some ''7'') =
     Inr (Container (CommandGraphObject WindowGraphNode (Some ''7'')
       (CommandGraphObject GroupGraphNode None CommandGraphRoot)))"
  using dispatch_total [of "CommandGraphObject GroupGraphNode None CommandGraphRoot" "''window''"
      "Some ''7''" "''window''" WindowGraphNode]
  by (simp add: CommandGraphMap_def)

subsection \<open>Paths do not identify nodes\<close>

text \<open>
  C10. Names and selectors are rendered verbatim: the call "screen[1]" at the root and
  the screen object of selector "1" under the root are two different nodes with the same
  path "screen[1]", so the path is not injective.
\<close>

theorem path_not_injective:
  "navigate CommandGraphRoot ''screen[1]'' None = Inr (CommandGraphCall ''screen[1]'' CommandGraphRoot) \<and>
   navigate CommandGraphRoot ''screen'' (Some ''1'') =
     Inr (Container (CommandGraphObject ScreenGraphNode (Some ''1'') CommandGraphRoot)) \<and>
   CommandGraphCall ''screen[1]'' CommandGraphRoot \<noteq>
     Container (CommandGraphObject ScreenGraphNode (Some ''1'') CommandGraphRoot) \<and>
   node_path (CommandGraphCall ''screen[1]'' CommandGraphRoot) = ''screen[1]'' \<and>
   node_path (Container (CommandGraphObject ScreenGraphNode (Some ''1'') CommandGraphRoot)) = ''screen[1]'' \<and>
   \<not> inj node_path"
proof -
  have a: "node_path (CommandGraphCall ''screen[1]'' CommandGraphRoot) = ''screen[1]''"
    by (simp add: path_def format_selectors_def)
  have b: "node_path (Container (CommandGraphObject ScreenGraphNode (Some ''1'') CommandGraphRoot)) = ''screen[1]''"
    by (simp add: path_def format_selectors_def)
  have "\<not> inj node_path"
  proof
    assume "inj node_path"
    then have "CommandGraphCall ''screen[1]'' CommandGraphRoot =
       Container (CommandGraphObject ScreenGraphNode (Some ''1'') CommandGraphRoot)"
      using a b by (metis injD)
    then show False by simp
  qed
  moreover have "navigate CommandGraphRoot ''screen[1]'' None = Inr (CommandGraphCall ''screen[1]'' CommandGraphRoot)"
    by (simp add: navigate_def)
  moreover have "navigate CommandGraphRoot ''screen'' (Some ''1'') =
     Inr (Container (CommandGraphObject ScreenGraphNode (Some ''1'') CommandGraphRoot))"
    by (simp add: navigate_def CommandGraphMap_def)
  ultimately show ?thesis using a b by simp
qed

end
